theory Spec2Isabelle
  imports Complex_Main
begin

section \<open>The ppagerank driver (ppagerank.cc)\<close>

text \<open>
  The driver is a C++ program over PETSc and MPI. Everything it does beyond returning
  an exit code is a call into those libraries, so the model threads an explicit
  \<open>petsc_state\<close> through every function: the options database, the calls and prints
  issued so far, and the PETSc vectors that exist. What the libraries answer (error
  codes, the loaded matrix, the process names) is the run's environment, \<open>env\<close>.
  The process group is modelled as a whole: a per-process quantity is a list indexed
  by rank.
\<close>

subsection \<open>Data\<close>

type_synonym PetscErrorCode = int

definition MPI_SUCCESS :: PetscErrorCode where
  "MPI_SUCCESS = 0"

definition version_major :: int where
  "version_major = 0"

definition version_minor :: int where
  "version_minor = 0"

text \<open>An argument of a printf-style call; the format string is kept as written.\<close>

datatype arg = I int | LL int | S string | C char

datatype event =
    PetscInitialize
  | PetscFinalize
  | PetscPrintf string "arg list"
  | PetscSynchronizedPrintf string "arg list"
  | PetscSynchronizedFlush
  | MPI_Barrier
  | MatLoadBSMAT string
  | PetscError string PetscErrorCode

text \<open>
  A distributed PETSc matrix, as far as the driver looks at it: the global sizes
  (\<open>MatGetSize\<close>), the local sizes of every process (\<open>MatGetLocalSize\<close>), the
  non-zero counts (\<open>MatGetNonzeroCount\<close>).
\<close>

record Mat =
  rows :: int
  columns :: int
  local_rows :: "int list"
  local_columns :: "int list"
  total_nz :: int
  local_nz :: "int list"

type_synonym Vec = "rat list"

type_synonym options = "(string \<times> string) list"

record petsc_state =
  options_db :: options
  trace :: "event list"
  vecs :: "Vec list"

subsection \<open>The environment of a run\<close>

text \<open>
  What the libraries answer during a run. \<open>argc\<close> counts the words of the command
  line, the program name included. \<open>cmdline_options\<close> is the options database
  \<open>PetscInitialize\<close> builds, which PETSc fills from the command line and also from
  the \<open>PETSC_OPTIONS\<close> environment variable and the \<open>.petscrc\<close> file, so it is
  an input of its own. \<open>processor_names\<close> has one name per rank, so its
  length is the size of the process group. \<open>vec_files\<close> is the vector files on disk,
  by name. The matrix loader \<open>MatLoadBSMAT\<close> is declared in
  \<open>petsc_util.h\<close> and takes the communicator and the file name; the options database
  is global state it can read as well, so its answer is a function of both.
  \<open>PETSC_MAX_PATH_LEN\<close> is a PETSc constant.
\<close>

record env =
  argc :: int
  cmdline_options :: options
  PetscInitialize_ierr :: PetscErrorCode
  PetscOptionsGetString_ierr :: PetscErrorCode
  PETSC_MAX_PATH_LEN :: nat
  MPI_Comm_size_ierr :: PetscErrorCode
  MPI_Comm_rank_ierr :: PetscErrorCode
  MPI_Barrier_ierr :: PetscErrorCode
  processor_names :: "string list"
  MPI_Reduce_ierr :: "nat \<Rightarrow> PetscErrorCode"
  MatLoadBSMAT_result :: "options \<Rightarrow> string \<Rightarrow> PetscErrorCode \<times> Mat"
  vec_files :: "string \<Rightarrow> Vec option"

subsection \<open>Library calls\<close>

definition NL :: string where
  "NL = [CHR 0x0A]"

definition emit :: "event \<Rightarrow> petsc_state \<Rightarrow> petsc_state" where
  "emit ev s = s\<lparr>trace := trace s @ [ev]\<rparr>"

definition emits :: "event list \<Rightarrow> petsc_state \<Rightarrow> petsc_state" where
  "emits evs s = s\<lparr>trace := trace s @ evs\<rparr>"

text \<open>
  \<open>CHKERRQ(ierr)\<close>: when \<open>ierr\<close> is not zero the enclosing function returns what
  \<open>PetscError\<close> returns, which with PETSc's error handlers is the code it was given.
\<close>

definition CHKERRQ_fail :: "string \<Rightarrow> PetscErrorCode \<Rightarrow> petsc_state \<Rightarrow> PetscErrorCode \<times> petsc_state" where
  "CHKERRQ_fail funct ierr s = (ierr, emit (PetscError funct ierr) s)"

text \<open>
  \<open>PetscOptionsGetString\<close>: the flag says whether the name is in the database; the
  value is copied into a buffer of \<open>len\<close> characters, the terminating zero included.
\<close>

definition PetscOptionsGetString :: "options \<Rightarrow> string \<Rightarrow> nat \<Rightarrow> string \<times> bool" where
  "PetscOptionsGetString db name len =
     (case map_of db name of
        None \<Rightarrow> ([], False)
      | Some v \<Rightarrow> (take (len - 1) v, True))"

definition PetscOptionsHasName :: "options \<Rightarrow> string \<Rightarrow> bool" where
  "PetscOptionsHasName db name = (map_of db name \<noteq> None)"

text \<open>\<open>MPI_Reduce\<close> with \<open>MPI_MAX\<close> and \<open>MPI_MIN\<close> over one value per rank, as the root sees it.\<close>

fun MPI_Reduce_MAX :: "int list \<Rightarrow> int" where
  "MPI_Reduce_MAX [] = 0"
| "MPI_Reduce_MAX (x # xs) = fold max xs x"

fun MPI_Reduce_MIN :: "int list \<Rightarrow> int" where
  "MPI_Reduce_MIN [] = 0"
| "MPI_Reduce_MIN (x # xs) = fold min xs x"

subsection \<open>The help text (\<^verbatim>\<open>static char help[]\<close>)\<close>

definition help_text :: string where
  "help_text = concat (map (\<lambda>l. l @ NL)
    [''usage: ppagerank -m <filename> [options]'',
     [],
     ''Data'',
     ''  -m <filename>    (REQUIRED) Load the matrix given by filename'',
     [],
     ''PageRank parameters'',
     ''  -alpha <float>   Set the value of the pagerank alpha parameter'',
     ''                   default = 0.85'',
     ''  -pvec <filename> Set the personalization vector'',
     ''                   default = (1/n) for each entry'',
     [],
     ''Additional options'',
     ''  -noout           Do not write any output information'',
     ''  -trans           The input matrix is transposed'',
     [],
     ''Matrix Loading options'',
     ''  -matload_root_nz_bufsize <int>     The nonzero buffer size to read and'',
     ''                                     send non-zero values to other procs'',
     ''                                     default = 2^25 (33554432)'',
     ''  -matload_redistribute              A binary switch indicating that the '',
     ''                                     matrix will be redistributed to balance'',
     ''                                     non-zeros and rows among processors'',
     ''  -matload_redistribute_wnnz <int>   The weight of each non-zero in the'',
     ''                                     distribution.'',
     ''                                     default = 1'',
     ''  -matload_redistribute_wrows <int>  The weight of each row in the'',
     ''                                     distribution.'',
     ''                                     default = 1''])"

subsection \<open>ComputePageRank\<close>

text \<open>
  \<^verbatim>\<open>PetscErrorCode ComputePageRank(Mat A) { return (MPI_SUCCESS); }\<close>
  The result is the error code, the matrix behind the handle after the call, and the
  state after the call.
\<close>

definition ComputePageRank :: "Mat \<Rightarrow> petsc_state \<Rightarrow> PetscErrorCode \<times> Mat \<times> petsc_state" where
  "ComputePageRank A s = (MPI_SUCCESS, A, s)"

subsection \<open>WriteHeader\<close>

definition rule_line :: "event list" where
  "rule_line = replicate 60 (PetscPrintf ''%c'' [C (CHR ''='')]) @ [PetscPrintf NL []]"

definition WriteHeader :: "env \<Rightarrow> petsc_state \<Rightarrow> PetscErrorCode \<times> petsc_state" where
  "WriteHeader e s =
     (let s1 = emits rule_line s;
          s2 = emit (PetscPrintf (''ppagerank %i.%i'' @ NL @ NL) [I version_major, I version_minor]) s1;
          s3 = emit (PetscPrintf (''David Gleich'' @ NL) []) s2;
          s4 = emit (PetscPrintf (''Copyright, 2006'' @ NL) []) s3;
          s5 = emits rule_line s4;
          size = int (length (processor_names e))
      in if MPI_Comm_size_ierr e \<noteq> 0 then CHKERRQ_fail ''WriteHeader'' (MPI_Comm_size_ierr e) s5
         else if MPI_Comm_rank_ierr e \<noteq> 0 then CHKERRQ_fail ''WriteHeader'' (MPI_Comm_rank_ierr e) s5
         else
           let s6 = emit (PetscPrintf (''nprocs = %i'' @ NL) [I size]) s5;
               s7 = emits (map (\<lambda>(rank, name).
                        PetscSynchronizedPrintf (''[%3i] %s running...'' @ NL) [I (int rank), S name])
                      (enumerate 0 (processor_names e))) s6;
               s8 = emit PetscSynchronizedFlush s7;
               s9 = emit MPI_Barrier s8
           in if MPI_Barrier_ierr e \<noteq> 0 then CHKERRQ_fail ''WriteHeader'' (MPI_Barrier_ierr e) s9
              else (MPI_SUCCESS, s9))"

subsection \<open>WriteSimpleMatrixStats\<close>

text \<open>
  The six \<open>MPI_Reduce\<close> calls are numbered 0 to 5 in program order; the first that
  fails ends the function before anything is printed.
\<close>

definition first_failing_reduce :: "env \<Rightarrow> PetscErrorCode option" where
  "first_failing_reduce e =
     (case filter (\<lambda>k. MPI_Reduce_ierr e k \<noteq> 0) [0, 1, 2, 3, 4, 5] of
        [] \<Rightarrow> None
      | k # _ \<Rightarrow> Some (MPI_Reduce_ierr e k))"

definition WriteSimpleMatrixStats :: "env \<Rightarrow> string \<Rightarrow> Mat \<Rightarrow> petsc_state \<Rightarrow> PetscErrorCode \<times> petsc_state" where
  "WriteSimpleMatrixStats e filename A s =
     (let m = rows A; n = columns A;
          max_local_rows = MPI_Reduce_MAX (local_rows A);
          min_local_rows = MPI_Reduce_MIN (local_rows A);
          max_local_columns = MPI_Reduce_MAX (local_columns A);
          min_local_columns = MPI_Reduce_MIN (local_columns A);
          max_local_nz = MPI_Reduce_MAX (local_nz A);
          min_local_nz = MPI_Reduce_MIN (local_nz A)
      in case first_failing_reduce e of
           Some ierr \<Rightarrow> CHKERRQ_fail ''WriteSimpleMatrixStats'' ierr s
         | None \<Rightarrow>
             (MPI_SUCCESS,
              emits
                [PetscPrintf (''matrix %s'' @ NL) [S filename],
                 PetscPrintf (''rows       = %10i'' @ NL) [I m],
                 PetscPrintf (''columns    = %10i'' @ NL) [I n],
                 PetscPrintf (''nnz        = %10lli'' @ NL) [LL (total_nz A)],
                 PetscPrintf (''local rows = (%10i,%10i)'' @ NL) [I min_local_rows, I max_local_rows],
                 PetscPrintf (''local cols = (%10i,%10i)'' @ NL) [I min_local_columns, I max_local_columns],
                 PetscPrintf (''local nzs  = (%10i,%10i)'' @ NL) [I min_local_nz, I max_local_nz]]
                s))"

subsection \<open>main\<close>

text \<open>
  The value of \<open>main\<close> is the exit code and the state at exit. The call of
  \<open>ComputePageRank\<close> in the last branch is commented out in the source, so both
  branches of \<open>if (script)\<close> are empty.
\<close>

definition main :: "env \<Rightarrow> int \<times> petsc_state" where
  "main e =
     (let s0 = \<lparr>options_db = cmdline_options e, trace = [PetscInitialize], vecs = []\<rparr>
      in if PetscInitialize_ierr e \<noteq> 0 then CHKERRQ_fail ''main'' (PetscInitialize_ierr e) s0
         else if argc e < 2 then (- 1, emit PetscFinalize (emit (PetscPrintf help_text []) s0))
         else
           let (matrix_filename, option_flag) =
                 PetscOptionsGetString (options_db s0) ''-m'' (PETSC_MAX_PATH_LEN e)
           in if PetscOptionsGetString_ierr e \<noteq> 0
              then CHKERRQ_fail ''main'' (PetscOptionsGetString_ierr e) s0
              else if \<not> option_flag
              then (- 1, emit PetscFinalize
                      (emit (PetscPrintf (NL @ ''Options error: no matrix file specified!'' @ NL @ NL) []) s0))
              else
                let script = PetscOptionsHasName (options_db s0) ''-script'';
                    s1 = snd (WriteHeader e s0);
                    s2 = emit (MatLoadBSMAT matrix_filename) s1;
                    (ierr, A) = MatLoadBSMAT_result e (options_db s2) matrix_filename
                in if ierr \<noteq> 0 then CHKERRQ_fail ''main'' ierr s2
                   else
                     let s3 = snd (WriteSimpleMatrixStats e matrix_filename A s2);
                         s4 = (if script then s3 else s3)
                     in (0, emit PetscFinalize s4))"

section \<open>Example runs\<close>

text \<open>
  Concrete inputs for the properties below: a four-node graph with the edges
  0 \<rightarrow> 1, 1 \<rightarrow> 2, 2 \<rightarrow> 0 and a dangling node 3, stored in the file \<open>web.bsmat\<close> and
  split over two processes; every library call succeeds, and any other file fails to
  open (PETSc error 65). The file \<open>p.vec\<close> holds a vector whose entries sum to 3/4.
\<close>

definition graph4 :: Mat where
  "graph4 = \<lparr>rows = 4, columns = 4, local_rows = [2, 2], local_columns = [2, 2],
             total_nz = 3, local_nz = [2, 1]\<rparr>"

definition no_matrix :: Mat where
  "no_matrix = \<lparr>rows = 0, columns = 0, local_rows = [], local_columns = [],
               total_nz = 0, local_nz = []\<rparr>"

definition run_env :: "int \<Rightarrow> options \<Rightarrow> env" where
  "run_env n db =
     \<lparr>argc = n, cmdline_options = db,
      PetscInitialize_ierr = 0, PetscOptionsGetString_ierr = 0, PETSC_MAX_PATH_LEN = 4096,
      MPI_Comm_size_ierr = 0, MPI_Comm_rank_ierr = 0, MPI_Barrier_ierr = 0,
      processor_names = [''node0'', ''node1''],
      MPI_Reduce_ierr = (\<lambda>k. 0),
      MatLoadBSMAT_result = (\<lambda>db f. if f = ''web.bsmat'' then (0, graph4) else (65, no_matrix)),
      vec_files = (\<lambda>f. if f = ''p.vec'' then Some [1 / 2, 1 / 4, 0, 0] else None)\<rparr>"

definition loaded_run :: env where
  "loaded_run = run_env 3 [(''-m'', ''web.bsmat'')]"





text \<open>
  The run \<open>loaded_run\<close> in which the third \<open>MPI_Reduce\<close> of
  \<open>WriteSimpleMatrixStats\<close> returns the error code 9.
\<close>

definition reduce_fails_run :: env where
  "reduce_fails_run = loaded_run\<lparr>MPI_Reduce_ierr := (\<lambda>k. if k = 2 then 9 else 0)\<rparr>"





text \<open>
  The state in which \<open>ComputePageRank\<close> is entered in the examples: the options
  database of the run, nothing printed yet, no vector.
\<close>

definition fresh_state :: "options \<Rightarrow> petsc_state" where
  "fresh_state db = \<lparr>options_db = db, trace = [], vecs = []\<rparr>"

subsection \<open>The options the help text advertises and main never queries\<close>


subsection \<open>The update and the default personalization of the specification\<close>


definition spec_uniform_pvec :: "nat \<Rightarrow> Vec" where
  "spec_uniform_pvec n = replicate n (1 / of_nat n)"

section \<open>Properties\<close>

subsection \<open>Frame lemmas\<close>

lemma emit_simps:
  "trace (emit ev s) = trace s @ [ev]" "vecs (emit ev s) = vecs s" "options_db (emit ev s) = options_db s"
  "trace (emits evs s) = trace s @ evs" "vecs (emits evs s) = vecs s" "options_db (emits evs s) = options_db s"
  by (simp_all add: emit_def emits_def)

lemma CHKERRQ_fail_simps:
  "fst (CHKERRQ_fail f ierr s) = ierr"
  "trace (snd (CHKERRQ_fail f ierr s)) = trace s @ [PetscError f ierr]"
  "vecs (snd (CHKERRQ_fail f ierr s)) = vecs s"
  "options_db (snd (CHKERRQ_fail f ierr s)) = options_db s"
  by (simp_all add: CHKERRQ_fail_def emit_simps)

lemma WriteHeader_frame:
  "vecs (snd (WriteHeader e s)) = vecs s" "options_db (snd (WriteHeader e s)) = options_db s"
  by (simp_all add: WriteHeader_def Let_def CHKERRQ_fail_simps emit_simps MPI_SUCCESS_def)

lemma WriteSimpleMatrixStats_frame:
  "vecs (snd (WriteSimpleMatrixStats e f A s)) = vecs s"
  "options_db (snd (WriteSimpleMatrixStats e f A s)) = options_db s"
  by (simp_all add: WriteSimpleMatrixStats_def Let_def CHKERRQ_fail_simps emit_simps split: option.split)







subsection \<open>ComputePageRank is a stub\<close>

text \<open>
  C9. For every input matrix \<open>A\<close>, \<open>ComputePageRank\<close> returns \<open>MPI_SUCCESS\<close> and leaves
  all state unchanged: the matrix is returned as it was, the state (options, output,
  vectors) is the state before the call, so no vector and no output is produced; and
  the error code and the state after the call are the same for any two matrices, so
  the matrix is not read.
\<close>

theorem ComputePageRank_frame:
  "ComputePageRank A s = (MPI_SUCCESS, A, s) \<and>
   fst (ComputePageRank A s) = 0 \<and>
   vecs (snd (snd (ComputePageRank A s))) = vecs s \<and>
   trace (snd (snd (ComputePageRank A s))) = trace s \<and>
   fst (ComputePageRank A s) = fst (ComputePageRank B s) \<and>
   snd (snd (ComputePageRank A s)) = snd (snd (ComputePageRank B s))"
  by (simp add: ComputePageRank_def MPI_SUCCESS_def)


text \<open>
  C4. The code does not do what the claim says. Entered on the four-node graph with
  \<open>-alpha 0.85\<close>, \<open>ComputePageRank\<close> returns \<open>MPI_SUCCESS\<close> having neither yielded a
  vector (the outcome of Converged) nor reported anything (the outcome of
  DivergedOrMaxIterExceeded): it ends through neither of the two outcomes the claim
  allows.
\<close>

theorem ComputePageRank_reaches_no_terminal_state:
  "fst (ComputePageRank graph4 (fresh_state [(''-m'', ''web.bsmat''), (''-alpha'', ''0.85'')]))
     = MPI_SUCCESS \<and>
   vecs (snd (snd (ComputePageRank graph4
      (fresh_state [(''-m'', ''web.bsmat''), (''-alpha'', ''0.85'')])))) = [] \<and>
   trace (snd (snd (ComputePageRank graph4
      (fresh_state [(''-m'', ''web.bsmat''), (''-alpha'', ''0.85'')])))) = []"
  by (simp add: ComputePageRank_def fresh_state_def)

text \<open>
  C7. The code does not do what the claim says. With \<open>-alpha 0\<close> in the options
  database and the four-node graph, the personalization vector (by default
  \<open>[1/4, 1/4, 1/4, 1/4]\<close>) is not among the vectors after \<open>ComputePageRank\<close>: there is
  none.
\<close>

theorem alpha_zero_yields_no_vector:
  "map_of (options_db (fresh_state [(''-m'', ''web.bsmat''), (''-alpha'', ''0'')])) ''-alpha'' = Some ''0'' \<and>
   spec_uniform_pvec 4 = [1 / 4, 1 / 4, 1 / 4, 1 / 4] \<and>
   spec_uniform_pvec 4 \<notin> set (vecs (snd (snd (ComputePageRank graph4
      (fresh_state [(''-m'', ''web.bsmat''), (''-alpha'', ''0'')]))))) \<and>
   vecs (snd (snd (ComputePageRank graph4
      (fresh_state [(''-m'', ''web.bsmat''), (''-alpha'', ''0'')])))) = []"
  by (simp add: spec_uniform_pvec_def ComputePageRank_def fresh_state_def numeral_eq_Suc)

subsection \<open>main\<close>

text \<open>
  C1. The code does not do what the claim says. In the run \<open>loaded_run\<close> the matrix is
  loaded successfully and the exit code is 0, but no PageRank vector has been produced:
  no vector exists at exit. The call of \<open>ComputePageRank\<close> in \<open>main\<close> is commented out,
  and \<open>ComputePageRank\<close> itself only returns \<open>MPI_SUCCESS\<close>.
\<close>

theorem main_runs_no_engine:
  "MatLoadBSMAT_result loaded_run (cmdline_options loaded_run) ''web.bsmat'' = (0, graph4) \<and>
   fst (main loaded_run) = 0 \<and>
   vecs (snd (main loaded_run)) = []"
  by (simp add: loaded_run_def run_env_def main_def PetscOptionsGetString_def Let_def
      WriteHeader_frame WriteSimpleMatrixStats_frame emit_simps)

text \<open>
  Without the \<open>-m\<close> option \<open>main\<close> returns a nonzero exit code and never calls the
  matrix loader (for any file \<open>f\<close>). When the PETSc calls succeed, all it does after
  initialising is print its report and finalize: the usage text when the command line
  has no argument, the message "Options error: no matrix file specified!" otherwise;
  when \<open>PetscInitialize\<close> or \<open>PetscOptionsGetString\<close> fails, the PETSc error is
  reported with the exit code.
\<close>

lemma main_no_matrix_option_fails:
  "map_of (cmdline_options e) ''-m'' = None \<Longrightarrow>
      fst (main e) \<noteq> 0 \<and>
      MatLoadBSMAT f \<notin> set (trace (snd (main e))) \<and>
      (if PetscInitialize_ierr e \<noteq> 0 \<or> (2 \<le> argc e \<and> PetscOptionsGetString_ierr e \<noteq> 0)
       then PetscError ''main'' (fst (main e)) \<in> set (trace (snd (main e)))
       else if argc e < 2
       then trace (snd (main e)) = [PetscInitialize, PetscPrintf help_text [], PetscFinalize]
       else trace (snd (main e)) =
              [PetscInitialize,
               PetscPrintf (NL @ ''Options error: no matrix file specified!'' @ NL @ NL) [],
               PetscFinalize])"
  by (auto simp add: main_def Let_def PetscOptionsGetString_def CHKERRQ_fail_simps emit_simps)

text \<open>
  C5. The code does not do what the claim says: it exits with 0 not only on success.
  \<open>main\<close> checks the error code of \<open>MatLoadBSMAT\<close> with \<open>CHKERRQ\<close> but discards the
  codes returned by \<open>WriteHeader\<close> and \<open>WriteSimpleMatrixStats\<close>. In the run
  \<open>reduce_fails_run\<close> the third \<open>MPI_Reduce\<close> fails with code 9,
  \<open>WriteSimpleMatrixStats\<close> reports the PETSc error and returns it, and \<open>main\<close> goes on
  to \<open>PetscFinalize\<close> and returns 0.
\<close>

theorem main_exits_zero_after_error:
  "map_of (cmdline_options reduce_fails_run) ''-m'' = Some ''web.bsmat'' \<and>
   MPI_Reduce_ierr reduce_fails_run 2 = 9 \<and>
   fst (main reduce_fails_run) = 0 \<and>
   PetscError ''WriteSimpleMatrixStats'' 9 \<in> set (trace (snd (main reduce_fails_run))) \<and>
   last (trace (snd (main reduce_fails_run))) = PetscFinalize"
  by (simp add: reduce_fails_run_def loaded_run_def run_env_def main_def PetscOptionsGetString_def
      Let_def WriteHeader_frame emit_simps WriteSimpleMatrixStats_def first_failing_reduce_def
      CHKERRQ_fail_simps)







end
